theory Spec2Isabelle
  imports Complex_Main
begin

section \<open>The Stripe webhook of JunctionSim (supabase_edge_function_stripe_webhook.ts)\<close>

text \<open>
  The edge function receives one HTTP request, verifies its signature with the Stripe
  client, dispatches on the event type and reconciles the event into two tables of the
  store: \<open>users\<close> (one row per email) and \<open>transactions\<close> (an append-only log).
  The model is a state-passing function \<open>serve\<close>: it takes the environment of one
  request (the answers of the Stripe client, the clock readings, and which store
  statements fail), the request and the store, and returns the response and the store
  after the request.

  Numbers: Stripe amounts are integers in minor units, modelled as \<open>int\<close>;
  \<open>Math.floor(amount / 10)\<close> is \<open>amount div 10\<close> (floor division). The quotient
  \<open>amount / 100\<close> that is stored in the DECIMAL columns is modelled exactly, as a
  rational number.
\<close>

subsection \<open>Events and the answers of the payment provider\<close>

type_synonym timestamp = string

record customer_details =
  email :: "string option"

text \<open>
  \<open>receivedEvent.data.object\<close>. The source reads it through three casts
  (\<open>Stripe.Checkout.Session\<close>, \<open>Stripe.Invoice\<close>, \<open>Stripe.Subscription\<close>), which do
  nothing at run time, so the object is one record with every field the handler reads;
  a field that is null or absent is \<open>None\<close>.
\<close>

record stripe_object =
  obj_id :: string
  customer_details :: "customer_details option"
  amount_total :: "int option"
  customer_email :: "string option"
  amount_paid :: "int option"
  subscription :: "string option"
  customer :: string

record stripe_event =
  type :: string
  data_object :: stripe_object

record price =
  price_id :: string
  product :: string

text \<open>\<open>subscription.items.data\<close>, each item reduced to its \<open>price\<close>.\<close>

record stripe_subscription =
  items_data :: "price list"

record stripe_product =
  name :: string

text \<open>
  The answer of \<open>stripe.customers.retrieve\<close>: a customer or a deleted customer. The
  field \<open>deleted\<close> is \<open>None\<close> when the object does not carry it.
\<close>

record stripe_customer =
  deleted :: "bool option"
  cust_email :: "string option"

text \<open>What \<open>constructEventAsync\<close> throws: an \<open>Error\<close> with a message, or any other value.\<close>

datatype thrown = ErrorInstance string | NotAnError

subsection \<open>The store\<close>

text \<open>The columns of \<open>users\<close> that the handler reads or writes (the key \<open>email\<close> is the key of the map).\<close>

record user_row =
  credits :: "int option"
  subscription_tier :: "string option"
  subscription_id :: "string option"
  subscription_active :: "bool option"
  last_purchase :: "timestamp option"
  last_payment :: "timestamp option"
  total_spent :: "rat option"
  subscription_cancelled :: "timestamp option"

record transaction_row =
  user_email :: string
  session_id :: "string option"
  tx_subscription_id :: "string option"
  amount :: rat
  credits_added :: "int option"
  timestamp :: timestamp
  tx_type :: string
  status :: string

text \<open>Every statement sent to the store is recorded in \<open>calls\<close>, also when it fails.\<close>

datatype store_call = SelectUser string | UpsertUser string | UpdateUser string | InsertTransaction

record store =
  users :: "string \<rightharpoonup> user_row"
  transactions :: "transaction_row list"
  calls :: "store_call list"

text \<open>
  The error object of a store statement. The handler only looks at whether its code is
  \<open>PGRST116\<close> (\<open>.single()\<close> found no row) or anything else.
\<close>

datatype store_error = PGRST116 | StoreFailure

text \<open>The row object that \<open>.select("credits")\<close> returns: only the selected column is on it.\<close>

record user_data =
  ud_credits :: "int option"
  ud_total_spent :: "rat option"

subsection \<open>The environment of one request\<close>

record env =
  constructEventAsync :: "string \<Rightarrow> string option \<Rightarrow> thrown + stripe_event"
  subscriptions_retrieve :: "string option \<Rightarrow> stripe_subscription option"
  products_retrieve :: "string option \<Rightarrow> stripe_product option"
  customers_retrieve :: "string \<Rightarrow> stripe_customer option"
  date_first :: timestamp
  date_second :: timestamp
  select_fails :: bool
  upsert_fails :: bool
  update_fails :: bool
  insert_fails :: bool

text \<open>
  \<open>constructEventAsync\<close> takes the body and the \<open>Stripe-Signature\<close> header (the signing
  secret is part of the environment) and either throws or returns the event. The three
  retrieve functions return \<open>None\<close> when the call rejects. \<open>date_first\<close> and
  \<open>date_second\<close> are the first and the second reading of \<open>new Date().toISOString()\<close>
  in the request.
\<close>

record request =
  signature :: "string option"
  body :: string

datatype response_body =
  Text string | ErrorJson string | SuccessJson | OkJson

record response =
  resp_body :: response_body
  resp_status :: nat

definition Response :: "response_body \<Rightarrow> nat \<Rightarrow> response" where
  "Response b st = \<lparr>resp_body = b, resp_status = st\<rparr>"

subsection \<open>Store statements\<close>

text \<open>
  Modelled from the spec: the client \<open>supabaseClient\<close> is used by the handler but
  declared nowhere in the source. The four statements follow the store contract of the
  spec (find by identifier, upsert, update of fields, append of a transaction) and the
  way the handler reads their results: a statement returns an error object instead of
  throwing, \<open>.single()\<close> on no row returns the error \<open>PGRST116\<close>, an update that
  matches no row is not an error, and a statement that fails changes no table.
\<close>

definition select_credits_single ::
  "env \<Rightarrow> string \<Rightarrow> store \<Rightarrow> (user_data option \<times> store_error option) \<times> store" where
  "select_credits_single e key s =
     (let s' = s\<lparr>calls := calls s @ [SelectUser key]\<rparr>
      in if select_fails e then ((None, Some StoreFailure), s')
         else (case users s key of
                 None \<Rightarrow> ((None, Some PGRST116), s')
               | Some u \<Rightarrow>
                   ((Some \<lparr>ud_credits = credits u, ud_total_spent = None\<rparr>, None), s')))"

text \<open>
  \<open>.upsert(row, {onConflict: "email"})\<close> with the columns the handler gives: credits,
  last_purchase, total_spent and subscription_tier. An existing row gets these four
  columns overwritten; a new row gets them, and the defaults of the schema for the rest.
\<close>

definition upsert_user ::
  "env \<Rightarrow> string \<Rightarrow> int \<Rightarrow> timestamp \<Rightarrow> rat \<Rightarrow> string \<Rightarrow> store \<Rightarrow> store_error option \<times> store" where
  "upsert_user e key c lp ts tier s =
     (let s' = s\<lparr>calls := calls s @ [UpsertUser key]\<rparr>
      in if upsert_fails e then (Some StoreFailure, s')
         else (None,
           s'\<lparr>users := (users s)(key \<mapsto>
              (case users s key of
                 None \<Rightarrow>
                   \<lparr>credits = Some c, subscription_tier = Some tier, subscription_id = None,
                    subscription_active = Some False, last_purchase = Some lp,
                    last_payment = None, total_spent = Some ts,
                    subscription_cancelled = None\<rparr>
               | Some u \<Rightarrow>
                   u\<lparr>credits := Some c, last_purchase := Some lp, total_spent := Some ts,
                     subscription_tier := Some tier\<rparr>))\<rparr>))"

text \<open>\<open>.update(fields).eq("email", key)\<close>: the fields are given as a function on the row.\<close>

definition update_user ::
  "env \<Rightarrow> string \<Rightarrow> (user_row \<Rightarrow> user_row) \<Rightarrow> store \<Rightarrow> store_error option \<times> store" where
  "update_user e key f s =
     (let s' = s\<lparr>calls := calls s @ [UpdateUser key]\<rparr>
      in if update_fails e then (Some StoreFailure, s')
         else (case users s key of
                 None \<Rightarrow> (None, s')
               | Some u \<Rightarrow> (None, s'\<lparr>users := (users s)(key \<mapsto> f u)\<rparr>)))"

definition insert_transaction ::
  "env \<Rightarrow> transaction_row \<Rightarrow> store \<Rightarrow> store_error option \<times> store" where
  "insert_transaction e t s =
     (let s' = s\<lparr>calls := calls s @ [InsertTransaction]\<rparr>
      in if insert_fails e then (Some StoreFailure, s')
         else (None, s'\<lparr>transactions := transactions s @ [t]\<rparr>))"

subsection \<open>JavaScript helpers\<close>

text \<open>\<open>!x\<close> on a string that may be null or undefined: true for null and for the empty string.\<close>

definition falsy :: "string option \<Rightarrow> bool" where
  "falsy x = (case x of None \<Rightarrow> True | Some v \<Rightarrow> v = [])"

text \<open>\<open>x || 0\<close> on a number that may be null or undefined.\<close>

definition or_zero :: "'a::zero option \<Rightarrow> 'a" where
  "or_zero x = (case x of None \<Rightarrow> 0 | Some v \<Rightarrow> v)"

text \<open>\<open>s.includes(p)\<close>: \<open>p\<close> occurs in \<open>s\<close> as a contiguous substring.\<close>

fun str_includes :: "string \<Rightarrow> string \<Rightarrow> bool" where
  "str_includes [] p = (p = [])"
| "str_includes (c # cs) p = (take (length p) (c # cs) = p \<or> str_includes cs p)"

subsection \<open>The three handlers\<close>

text \<open>
  Each handler follows its branch of the source statement by statement. A \<open>throw\<close>
  inside a \<open>try\<close> block (a store error that the handler rethrows, a provider call that
  rejects) is the 500 of the \<open>catch\<close> of that block. The result of the insert into
  \<open>transactions\<close> is bound to \<open>logError\<close> and never read, as in the source, where
  the statement is awaited and its result dropped. The constant \<open>priceId\<close> of the
  invoice handler is computed and never used in the source; it is left out.
\<close>

definition checkout_session_completed :: "env \<Rightarrow> stripe_object \<Rightarrow> store \<Rightarrow> response \<times> store" where
  "checkout_session_completed e session s =
     (let userEmail = (case customer_details session of None \<Rightarrow> None | Some d \<Rightarrow> email d);
          amount = or_zero (amount_total session);
          sessionId = obj_id session
      in if falsy userEmail then (Response (ErrorJson ''No customer email'') 400, s)
         else
           (let ((userData, fetchError), s1) = select_credits_single e (the userEmail) s
            in if fetchError \<noteq> None \<and> fetchError \<noteq> Some PGRST116
               then (Response (Text ''Failed to update user credits'') 500, s1)
               else
                 (let currentCredits =
                        or_zero (case userData of None \<Rightarrow> None | Some d \<Rightarrow> ud_credits d);
                      creditsToAdd = amount div 10;
                      newCredits = currentCredits + creditsToAdd;
                      (updateError, s2) =
                        upsert_user e (the userEmail) newCredits (date_first e)
                          (or_zero (case userData of None \<Rightarrow> None | Some d \<Rightarrow> ud_total_spent d)
                             + of_int amount / 100)
                          ''free'' s1
                  in if updateError \<noteq> None
                     then (Response (Text ''Failed to update user credits'') 500, s2)
                     else
                       (let (logError, s3) =
                              insert_transaction e
                                \<lparr>user_email = the userEmail, session_id = Some sessionId,
                                 tx_subscription_id = None, amount = of_int amount / 100,
                                 credits_added = Some creditsToAdd, timestamp = date_second e,
                                 tx_type = ''credit_purchase'', status = ''completed''\<rparr> s2
                        in (Response SuccessJson 200, s3)))))"

definition invoice_payment_succeeded :: "env \<Rightarrow> stripe_object \<Rightarrow> store \<Rightarrow> response \<times> store" where
  "invoice_payment_succeeded e invoice s =
     (let customerEmail = customer_email invoice;
          amountPaid = or_zero (amount_paid invoice);
          subscriptionId = subscription invoice
      in if falsy customerEmail then (Response (ErrorJson ''No customer email'') 400, s)
         else
           (case subscriptions_retrieve e subscriptionId of
              None \<Rightarrow> (Response (Text ''Failed to update subscription'') 500, s)
            | Some sub \<Rightarrow>
                (let productId = (case items_data sub of [] \<Rightarrow> None | p # _ \<Rightarrow> Some (product p))
                 in case products_retrieve e productId of
                      None \<Rightarrow> (Response (Text ''Failed to update subscription'') 500, s)
                    | Some prd \<Rightarrow>
                        (let tier = (if str_includes (name prd) ''Premium''
                                     then ''premium'' else ''enterprise'');
                             (updateError, s1) =
                               update_user e (the customerEmail)
                                 (\<lambda>u. u\<lparr>subscription_tier := Some tier,
                                        subscription_id := subscriptionId,
                                        subscription_active := Some True,
                                        last_payment := Some (date_first e)\<rparr>) s
                         in if updateError \<noteq> None
                            then (Response (Text ''Failed to update subscription'') 500, s1)
                            else
                              (let (logError, s2) =
                                     insert_transaction e
                                       \<lparr>user_email = the customerEmail, session_id = None,
                                        tx_subscription_id = subscriptionId,
                                        amount = of_int amountPaid / 100,
                                        credits_added = None, timestamp = date_second e,
                                        tx_type = ''subscription_payment'',
                                        status = ''completed''\<rparr> s1
                               in (Response SuccessJson 200, s2))))))"

definition customer_subscription_deleted :: "env \<Rightarrow> stripe_object \<Rightarrow> store \<Rightarrow> response \<times> store" where
  "customer_subscription_deleted e sub s =
     (let customerId = customer sub
      in case customers_retrieve e customerId of
           None \<Rightarrow> (Response (Text ''Failed to cancel subscription'') 500, s)
         | Some cust \<Rightarrow>
             (let customerEmail =
                    (if deleted cust = Some False then cust_email cust else None)
              in if falsy customerEmail
                 then (Response (ErrorJson ''Could not find customer email'') 400, s)
                 else
                   (let (updateError, s1) =
                          update_user e (the customerEmail)
                            (\<lambda>u. u\<lparr>subscription_active := Some False,
                                   subscription_cancelled := Some (date_first e)\<rparr>) s
                    in if updateError \<noteq> None
                       then (Response (Text ''Failed to cancel subscription'') 500, s1)
                       else (Response SuccessJson 200, s1))))"

subsection \<open>The request handler\<close>

definition serve :: "env \<Rightarrow> request \<Rightarrow> store \<Rightarrow> response \<times> store" where
  "serve e rq s =
     (case constructEventAsync e (body rq) (signature rq) of
        Inl (ErrorInstance msg) \<Rightarrow> (Response (Text msg) 400, s)
      | Inl NotAnError \<Rightarrow> (Response (Text ''Unknown error occurred'') 400, s)
      | Inr receivedEvent \<Rightarrow>
          if type receivedEvent = ''checkout.session.completed''
          then checkout_session_completed e (data_object receivedEvent) s
          else if type receivedEvent = ''invoice.payment_succeeded''
          then invoice_payment_succeeded e (data_object receivedEvent) s
          else if type receivedEvent = ''customer.subscription.deleted''
          then customer_subscription_deleted e (data_object receivedEvent) s
          else (Response OkJson 200, s))"

subsection \<open>The balance of an account\<close>

text \<open>
  The credit balance of the account with a given email, read the way the handler reads
  it (\<open>userData?.credits || 0\<close>): no row and a null column both count as 0.
\<close>

definition balance :: "store \<Rightarrow> string \<Rightarrow> int" where
  "balance s key = or_zero (case users s key of None \<Rightarrow> None | Some u \<Rightarrow> credits u)"

subsection \<open>Example requests\<close>

definition blank_object :: stripe_object where
  "blank_object =
     \<lparr>obj_id = [], customer_details = None, amount_total = None, customer_email = None,
      amount_paid = None, subscription = None, customer = []\<rparr>"

text \<open>A completed checkout of ada@example.org with the given \<open>amount_total\<close>.\<close>

definition purchase_event :: "int option \<Rightarrow> stripe_event" where
  "purchase_event a =
     \<lparr>type = ''checkout.session.completed'',
      data_object = blank_object\<lparr>obj_id := ''cs_test_1'',
        customer_details := Some \<lparr>email = Some ''ada@example.org''\<rparr>,
        amount_total := a\<rparr>\<rparr>"

text \<open>A paid invoice of 25.00 for the subscription \<open>sub_1\<close> of ada@example.org.\<close>

definition invoice_event :: stripe_event where
  "invoice_event =
     \<lparr>type = ''invoice.payment_succeeded'',
      data_object = blank_object\<lparr>obj_id := ''in_test_1'',
        customer_email := Some ''ada@example.org'', amount_paid := Some 2500,
        subscription := Some ''sub_1''\<rparr>\<rparr>"

definition other_event :: stripe_event where
  "other_event = \<lparr>type = ''customer.created'', data_object = blank_object\<rparr>"

text \<open>
  An environment in which nothing fails: the signature \<open>valid\<close> verifies and decodes to
  the given event, the subscription \<open>sub_1\<close> is for the product \<open>prod_1\<close>, named
  JunctionSim Premium, and every store statement succeeds.
\<close>

definition healthy_env :: "stripe_event \<Rightarrow> env" where
  "healthy_env ev =
     \<lparr>constructEventAsync =
        (\<lambda>b sg. if sg = Some ''valid'' then Inr ev
                else Inl (ErrorInstance ''No signatures found'')),
      subscriptions_retrieve =
        (\<lambda>i. if i = Some ''sub_1''
              then Some \<lparr>items_data = [\<lparr>price_id = ''price_1'', product = ''prod_1''\<rparr>]\<rparr>
              else None),
      products_retrieve =
        (\<lambda>i. if i = Some ''prod_1'' then Some \<lparr>name = ''JunctionSim Premium''\<rparr> else None),
      customers_retrieve = (\<lambda>i. None),
      date_first = ''2024-05-01T10:00:00.000Z'',
      date_second = ''2024-05-01T10:00:00.250Z'',
      select_fails = False, upsert_fails = False, update_fails = False,
      insert_fails = False\<rparr>"

definition signed_request :: request where
  "signed_request = \<lparr>signature = Some ''valid'', body = ''payload''\<rparr>"

definition unsigned_request :: request where
  "unsigned_request = \<lparr>signature = None, body = ''payload''\<rparr>"

text \<open>An account with the given credits, tier and cumulative spend, and no subscription.\<close>

definition account :: "int \<Rightarrow> string \<Rightarrow> rat \<Rightarrow> user_row" where
  "account c tier spent =
     \<lparr>credits = Some c, subscription_tier = Some tier, subscription_id = None,
      subscription_active = Some False, last_purchase = None, last_payment = None,
      total_spent = Some spent, subscription_cancelled = None\<rparr>"

text \<open>A store with at most one row in \<open>users\<close>, for ada@example.org, and an empty log.\<close>

definition store_of :: "user_row option \<Rightarrow> store" where
  "store_of row =
     \<lparr>users = (\<lambda>k. if k = ''ada@example.org'' then row else None),
      transactions = [], calls = []\<rparr>"

section \<open>Properties\<close>

lemmas store_ops =
  select_credits_single_def upsert_user_def update_user_def insert_transaction_def

lemmas handlers =
  serve_def checkout_session_completed_def invoice_payment_succeeded_def
  customer_subscription_deleted_def Response_def Let_def falsy_def or_zero_def

lemmas examples =
  blank_object_def purchase_event_def invoice_event_def other_event_def healthy_env_def
  signed_request_def unsigned_request_def account_def store_of_def

subsection \<open>The helpers\<close>

lemma str_includes_iff: "str_includes s p \<longleftrightarrow> (\<exists>a b. s = a @ p @ b)"
proof (induction s)
  case Nil
  then show ?case by auto
next
  case (Cons c cs)
  show ?case
  proof
    assume "str_includes (c # cs) p"
    then consider "take (length p) (c # cs) = p" | "str_includes cs p" by auto
    then show "\<exists>a b. c # cs = a @ p @ b"
    proof cases
      case 1
      then have "c # cs = [] @ p @ drop (length p) (c # cs)"
        by (metis append_Nil append_take_drop_id)
      then show ?thesis by blast
    next
      case 2
      then obtain a b where "cs = a @ p @ b" using Cons.IH by blast
      then have "c # cs = (c # a) @ p @ b" by simp
      then show ?thesis by blast
    qed
  next
    assume "\<exists>a b. c # cs = a @ p @ b"
    then obtain a b where ab: "c # cs = a @ p @ b" by blast
    show "str_includes (c # cs) p"
    proof (cases a)
      case Nil
      with ab have "take (length p) (c # cs) = p" by simp
      then show ?thesis by simp
    next
      case (Cons x a')
      with ab have "cs = a' @ p @ b" by simp
      then have "str_includes cs p" using Cons.IH by blast
      then show ?thesis by simp
    qed
  qed
qed


subsection \<open>Client errors leave the store alone\<close>

lemma checkout_400_unchanged:
  "checkout_session_completed e ob s = (r, s') \<Longrightarrow> resp_status r = 400 \<Longrightarrow> s' = s"
  by (auto simp: checkout_session_completed_def Response_def Let_def store_ops
      split: if_splits option.splits prod.splits)

lemma invoice_400_unchanged:
  "invoice_payment_succeeded e ob s = (r, s') \<Longrightarrow> resp_status r = 400 \<Longrightarrow> s' = s"
  by (auto simp: invoice_payment_succeeded_def Response_def Let_def store_ops
      split: if_splits option.splits prod.splits list.splits)

lemma deleted_400_unchanged:
  "customer_subscription_deleted e ob s = (r, s') \<Longrightarrow> resp_status r = 400 \<Longrightarrow> s' = s"
  by (auto simp: customer_subscription_deleted_def Response_def Let_def store_ops
      split: if_splits option.splits prod.splits)

text \<open>
  Claim C7. Whenever the handler answers with status 400 (the signature does not verify,
  a purchase or subscription-payment event has no customer email, or the customer email of
  a cancellation cannot be resolved), the store after the request is the store before it:
  no table has changed and no statement at all has been sent to the store.
\<close>

theorem client_error_no_store_write:
  "serve e rq s = (r, s') \<Longrightarrow> resp_status r = 400 \<Longrightarrow> s' = s"
  by (auto simp: serve_def Response_def
      dest: checkout_400_unchanged invoice_400_unchanged deleted_400_unchanged
      split: sum.splits thrown.splits if_splits)

theorem client_error_no_store_write_witness:
  "resp_status (fst (serve (healthy_env other_event) unsigned_request
      (store_of (Some (account 5 ''free'' 0))))) = 400
   \<and> snd (serve (healthy_env other_event) unsigned_request
      (store_of (Some (account 5 ''free'' 0)))) = store_of (Some (account 5 ''free'' 0))"
proof -
  let ?run = "serve (healthy_env other_event) unsigned_request
      (store_of (Some (account 5 ''free'' 0)))"
  have st: "resp_status (fst ?run) = 400"
    by (simp add: serve_def Response_def healthy_env_def unsigned_request_def)
  have "?run = (fst ?run, snd ?run)" by simp
  from client_error_no_store_write [OF this st] st show ?thesis by simp
qed

subsection \<open>Unhandled event types\<close>

text \<open>
  Claim C8. For every authenticated event whose type is none of
  checkout.session.completed, invoice.payment_succeeded and customer.subscription.deleted,
  the handler answers 200 and the store is untouched: no table changes and no statement is
  sent to it.
\<close>

theorem unhandled_kind_acknowledged:
  "constructEventAsync e (body rq) (signature rq) = Inr ev \<Longrightarrow>
   type ev \<noteq> ''checkout.session.completed'' \<Longrightarrow>
   type ev \<noteq> ''invoice.payment_succeeded'' \<Longrightarrow>
   type ev \<noteq> ''customer.subscription.deleted'' \<Longrightarrow>
   serve e rq s = (Response OkJson 200, s)"
  by (simp add: serve_def)

theorem unhandled_kind_acknowledged_witness:
  "serve (healthy_env other_event) signed_request (store_of None)
     = (Response OkJson 200, store_of None)"
proof -
  have v: "constructEventAsync (healthy_env other_event) (body signed_request)
             (signature signed_request) = Inr other_event"
    by (simp add: healthy_env_def signed_request_def)
  show ?thesis
    by (rule unhandled_kind_acknowledged [OF v]) (simp_all add: other_event_def)
qed

subsection \<open>What a purchase does to the account\<close>

lemma checkout_200_balance:
  "checkout_session_completed e ob s = (r, s') \<Longrightarrow> resp_status r = 200 \<Longrightarrow>
   customer_details ob = Some d \<Longrightarrow> email d = Some k \<Longrightarrow>
   balance s' k = balance s k + or_zero (amount_total ob) div 10"
  by (auto simp: checkout_session_completed_def Response_def Let_def store_ops balance_def
      or_zero_def
      split: if_splits option.splits prod.splits)

lemma checkout_200_email:
  "checkout_session_completed e ob s = (r, s') \<Longrightarrow> resp_status r = 200 \<Longrightarrow>
   \<exists>d k. customer_details ob = Some d \<and> email d = Some k \<and> k \<noteq> [] \<and> users s' k \<noteq> None"
  by (auto simp: checkout_session_completed_def Response_def Let_def store_ops falsy_def
      split: if_splits option.splits prod.splits)


lemma serve_checkout:
  "constructEventAsync e (body rq) (signature rq) = Inr ev \<Longrightarrow>
   type ev = ''checkout.session.completed'' \<Longrightarrow>
   serve e rq s = checkout_session_completed e (data_object ev) s"
  by (simp add: serve_def)

lemma serve_invoice:
  "constructEventAsync e (body rq) (signature rq) = Inr ev \<Longrightarrow>
   type ev = ''invoice.payment_succeeded'' \<Longrightarrow>
   serve e rq s = invoice_payment_succeeded e (data_object ev) s"
  by (simp add: serve_def)


text \<open>
  Claim C1, as the specification states it: a second delivery of the same checkout
  session leaves the balance where the first delivery put it. The handler has no check
  on the session identifier. With a balance of 5 and a purchase of 1000, the first
  delivery returns 200 and stores 105, the second returns 200 and stores 205.
\<close>

theorem replay_double_credits:
  "resp_status (fst (serve (healthy_env (purchase_event (Some 1000))) signed_request
      (store_of (Some (account 5 ''free'' 0))))) = 200
   \<and> balance (snd (serve (healthy_env (purchase_event (Some 1000))) signed_request
      (store_of (Some (account 5 ''free'' 0))))) ''ada@example.org'' = 105
   \<and> resp_status (fst (serve (healthy_env (purchase_event (Some 1000))) signed_request
      (snd (serve (healthy_env (purchase_event (Some 1000))) signed_request
        (store_of (Some (account 5 ''free'' 0))))))) = 200
   \<and> balance (snd (serve (healthy_env (purchase_event (Some 1000))) signed_request
      (snd (serve (healthy_env (purchase_event (Some 1000))) signed_request
        (store_of (Some (account 5 ''free'' 0))))))) ''ada@example.org'' = 205"
  by (simp add: handlers store_ops examples balance_def)

text \<open>
  Claim C1, amended. When the same credit-purchase event is processed twice and both
  runs return 200, each run adds \<open>floor(amount / 10)\<close> to the balance of the account:
  the balance after the second run is the balance after the first run plus the granted
  credits once more.
\<close>

theorem replay_grants_credits_again:
  assumes "constructEventAsync e1 (body rq) (signature rq) = Inr ev"
    and "constructEventAsync e2 (body rq) (signature rq) = Inr ev"
    and "type ev = ''checkout.session.completed''"
    and "customer_details (data_object ev) = Some d" and "email d = Some k"
    and "serve e1 rq s0 = (r1, s1)" and "resp_status r1 = 200"
    and "serve e2 rq s1 = (r2, s2)" and "resp_status r2 = 200"
  shows "balance s1 k = balance s0 k + or_zero (amount_total (data_object ev)) div 10
       \<and> balance s2 k = balance s1 k + or_zero (amount_total (data_object ev)) div 10"
proof -
  have "checkout_session_completed e1 (data_object ev) s0 = (r1, s1)"
    using assms(1,3,6) by (simp add: serve_checkout)
  then have first: "balance s1 k = balance s0 k + or_zero (amount_total (data_object ev)) div 10"
    using assms(7,4,5) by (rule checkout_200_balance)
  have "checkout_session_completed e2 (data_object ev) s1 = (r2, s2)"
    using assms(2,3,8) by (simp add: serve_checkout)
  then have "balance s2 k = balance s1 k + or_zero (amount_total (data_object ev)) div 10"
    using assms(9,4,5) by (rule checkout_200_balance)
  with first show ?thesis by simp
qed

theorem replay_grants_credits_again_witness:
  "balance (snd (serve (healthy_env (purchase_event (Some 250))) signed_request
      (store_of None))) ''ada@example.org'' = 25
   \<and> balance (snd (serve (healthy_env (purchase_event (Some 250))) signed_request
      (snd (serve (healthy_env (purchase_event (Some 250))) signed_request
        (store_of None))))) ''ada@example.org'' = 50"
proof -
  let ?e = "healthy_env (purchase_event (Some 250))"
  let ?s1 = "snd (serve ?e signed_request (store_of None))"
  let ?s2 = "snd (serve ?e signed_request ?s1)"
  have v: "constructEventAsync ?e (body signed_request) (signature signed_request)
             = Inr (purchase_event (Some 250))"
    by (simp add: healthy_env_def signed_request_def)
  have ty: "type (purchase_event (Some 250)) = ''checkout.session.completed''"
    by (simp add: purchase_event_def)
  have d: "customer_details (data_object (purchase_event (Some 250)))
             = Some \<lparr>email = Some ''ada@example.org''\<rparr>"
    by (simp add: purchase_event_def)
  have k: "email \<lparr>email = Some ''ada@example.org''\<rparr> = Some ''ada@example.org''"
    by simp
  have r1: "serve ?e signed_request (store_of None)
              = (fst (serve ?e signed_request (store_of None)), ?s1)"
    by simp
  have st1: "resp_status (fst (serve ?e signed_request (store_of None))) = 200"
    by (simp add: handlers store_ops examples)
  have r2: "serve ?e signed_request ?s1 = (fst (serve ?e signed_request ?s1), ?s2)"
    by simp
  have st2: "resp_status (fst (serve ?e signed_request ?s1)) = 200"
    by (simp add: handlers store_ops examples)
  have b0: "balance (store_of None) ''ada@example.org'' = 0"
    by (simp add: balance_def store_of_def or_zero_def)
  have a: "or_zero (amount_total (data_object (purchase_event (Some 250)))) div 10 = 25"
    by (simp add: purchase_event_def blank_object_def or_zero_def)
  from replay_grants_credits_again [OF v v ty d k r1 st1 r2 st2] b0 a
  show ?thesis by simp
qed


text \<open>
  Claim C2, at an input where it fails. The account of ada@example.org has 5 credits and
  a cumulative spend of 10; a purchase of 1000 minor units is processed. The handler
  grants 100 credits and stores the balance 105, as claimed, but the cumulative spend it
  stores is 10 (the \<open>amount / 100\<close> of this purchase alone), not 10 + 10 = 20: the row
  read with \<open>.select("credits")\<close> carries no \<open>total_spent\<close>, so the prior spend is
  taken as 0.
\<close>

theorem purchase_overwrites_total_spent:
  "resp_status (fst (serve (healthy_env (purchase_event (Some 1000))) signed_request
      (store_of (Some (account 5 ''free'' 10))))) = 200
   \<and> map_option credits (users (snd (serve (healthy_env (purchase_event (Some 1000)))
        signed_request (store_of (Some (account 5 ''free'' 10))))) ''ada@example.org'')
      = Some (Some 105)
   \<and> map_option total_spent (users (snd (serve (healthy_env (purchase_event (Some 1000)))
        signed_request (store_of (Some (account 5 ''free'' 10))))) ''ada@example.org'')
      = Some (Some 10)"
  by (simp add: handlers store_ops examples)

text \<open>
  Claim C3, at an input where it fails. The store rejects the insert into
  \<open>transactions\<close> (every other statement succeeds) while a purchase of 1000 for a new
  account is processed. The handler does not look at the result of the insert: it
  answers 200, the account has been written with 100 credits, and the transaction log is
  still empty.
\<close>

theorem success_without_transaction_record:
  "fst (serve ((healthy_env (purchase_event (Some 1000)))\<lparr>insert_fails := True\<rparr>)
      signed_request (store_of None)) = Response SuccessJson 200
   \<and> balance (snd (serve ((healthy_env (purchase_event (Some 1000)))\<lparr>insert_fails := True\<rparr>)
      signed_request (store_of None))) ''ada@example.org'' = 100
   \<and> transactions (snd (serve ((healthy_env (purchase_event (Some 1000)))
      \<lparr>insert_fails := True\<rparr>) signed_request (store_of None))) = []"
  by (simp add: handlers store_ops examples balance_def)

text \<open>
  Claim C4, at an input where it fails. The account of ada@example.org exists with the
  tier premium; a purchase of 1000 is processed. The upsert writes
  \<open>subscription_tier: "free"\<close> over the existing row: the tier after the purchase is
  free.
\<close>

theorem purchase_resets_tier:
  "map_option subscription_tier (users (store_of (Some (account 5 ''premium'' 0)))
      ''ada@example.org'') = Some (Some ''premium'')
   \<and> resp_status (fst (serve (healthy_env (purchase_event (Some 1000))) signed_request
      (store_of (Some (account 5 ''premium'' 0))))) = 200
   \<and> map_option subscription_tier (users (snd (serve (healthy_env (purchase_event (Some 1000)))
        signed_request (store_of (Some (account 5 ''premium'' 0))))) ''ada@example.org'')
      = Some (Some ''free'')"
  by (simp add: handlers store_ops examples)




subsection \<open>What the subscription handlers do to the account\<close>



lemma invoice_dom_users:
  "invoice_payment_succeeded e ob s = (r, s') \<Longrightarrow> dom (users s') = dom (users s)"
  by (auto simp: invoice_payment_succeeded_def Response_def Let_def store_ops
      split: if_splits option.splits prod.splits list.splits)

lemma invoice_ok:
  assumes "customer_email ob = Some k" and "k \<noteq> []"
    and "subscriptions_retrieve e (subscription ob) = Some sub"
    and "products_retrieve e (case items_data sub of [] \<Rightarrow> None | p # _ \<Rightarrow> Some (product p))
           = Some prd"
    and "\<not> update_fails e"
  shows "fst (invoice_payment_succeeded e ob s) = Response SuccessJson 200"
    and "users (snd (invoice_payment_succeeded e ob s)) k =
           map_option (\<lambda>u. u\<lparr>subscription_tier :=
                 Some (if str_includes (name prd) ''Premium'' then ''premium''
                       else ''enterprise''),
               subscription_id := subscription ob,
               subscription_active := Some True,
               last_payment := Some (date_first e)\<rparr>) (users s k)"
    and "transactions (snd (invoice_payment_succeeded e ob s)) =
           (if insert_fails e then transactions s
            else transactions s @
              [\<lparr>user_email = k, session_id = None, tx_subscription_id = subscription ob,
                amount = of_int (or_zero (amount_paid ob)) / 100,
                credits_added = None, timestamp = date_second e,
                tx_type = ''subscription_payment'', status = ''completed''\<rparr>])"
  using assms
  by (auto simp: invoice_payment_succeeded_def Response_def Let_def store_ops falsy_def
      split: option.splits)

text \<open>
  Claim C5, as the specification states it: the first successfully processed
  subscription payment for an unseen email creates the account. The handler uses
  \<open>.update(...).eq("email", ...)\<close>, which changes existing rows only. On a store
  without the account, the paid invoice of ada@example.org is answered with 200 and there
  is still no account for ada@example.org afterwards.
\<close>

theorem subscription_payment_creates_no_account:
  "users (store_of None) ''ada@example.org'' = None
   \<and> resp_status (fst (serve (healthy_env invoice_event) signed_request (store_of None))) = 200
   \<and> users (snd (serve (healthy_env invoice_event) signed_request (store_of None)))
        ''ada@example.org'' = None"
  by (simp add: handlers store_ops examples)

text \<open>
  Claim C5, amended. A successfully processed (200) credit-purchase event leaves an
  account for its customer email in the store, created by the upsert when there was none.
  A successfully processed (200) subscription-payment event creates no account: the
  emails that have an account are the same before and after it.
\<close>

theorem account_creation_by_kind:
  assumes "constructEventAsync e (body rq) (signature rq) = Inr ev"
    and "serve e rq s = (r, s')" and "resp_status r = 200"
  shows "(type ev = ''checkout.session.completed'' \<longrightarrow>
            (\<exists>d k. customer_details (data_object ev) = Some d \<and> email d = Some k
               \<and> users s' k \<noteq> None))
       \<and> (type ev = ''invoice.payment_succeeded'' \<longrightarrow> dom (users s') = dom (users s))"
proof (intro conjI impI)
  assume ty: "type ev = ''checkout.session.completed''"
  have "checkout_session_completed e (data_object ev) s = (r, s')"
    using assms(1,2) ty by (simp add: serve_checkout)
  from checkout_200_email [OF this assms(3)]
  show "\<exists>d k. customer_details (data_object ev) = Some d \<and> email d = Some k
          \<and> users s' k \<noteq> None"
    by blast
next
  assume ty: "type ev = ''invoice.payment_succeeded''"
  have "invoice_payment_succeeded e (data_object ev) s = (r, s')"
    using assms(1,2) ty by (simp add: serve_invoice)
  then show "dom (users s') = dom (users s)" by (rule invoice_dom_users)
qed

theorem account_creation_by_kind_witness:
  "users (snd (serve (healthy_env (purchase_event (Some 1000))) signed_request (store_of None)))
      ''ada@example.org'' \<noteq> None
   \<and> dom (users (snd (serve (healthy_env invoice_event) signed_request (store_of None))))
      = dom (users (store_of None))"
proof -
  let ?p = "purchase_event (Some 1000)"
  let ?rp = "serve (healthy_env ?p) signed_request (store_of None)"
  let ?ri = "serve (healthy_env invoice_event) signed_request (store_of None)"
  have vp: "constructEventAsync (healthy_env ?p) (body signed_request)
              (signature signed_request) = Inr ?p"
    by (simp add: healthy_env_def signed_request_def)
  have vi: "constructEventAsync (healthy_env invoice_event) (body signed_request)
              (signature signed_request) = Inr invoice_event"
    by (simp add: healthy_env_def signed_request_def)
  have sp: "resp_status (fst ?rp) = 200"
    by (simp add: handlers store_ops examples)
  have si: "resp_status (fst ?ri) = 200"
    by (simp add: handlers store_ops examples)
  have pp: "?rp = (fst ?rp, snd ?rp)" and pi: "?ri = (fst ?ri, snd ?ri)"
    by simp_all
  have tyq: "type ?p = ''checkout.session.completed''"
    and tyi: "type invoice_event = ''invoice.payment_succeeded''"
    and em: "customer_details (data_object ?p) = Some \<lparr>email = Some ''ada@example.org''\<rparr>"
    by (simp_all add: purchase_event_def invoice_event_def)
  from account_creation_by_kind [OF vp pp sp] tyq em
  have "users (snd ?rp) ''ada@example.org'' \<noteq> None" by auto
  moreover from account_creation_by_kind [OF vi pi si] tyi
  have "dom (users (snd ?ri)) = dom (users (store_of None))" by blast
  ultimately show ?thesis by blast
qed

text \<open>
  Claim C6, as the specification states it: with a resolvable customer email and
  successful provider lookups, the handler sets the tier of the account. For the paid
  invoice of ada@example.org (product JunctionSim Premium, every lookup and every store
  statement succeeds) on a store without that account, the handler answers 200 and logs
  the payment, but no account of ada@example.org has the tier premium: there is no such
  account.
\<close>

theorem subscription_payment_sets_no_tier:
  "str_includes (name \<lparr>name = ''JunctionSim Premium''\<rparr>) ''Premium''
   \<and> fst (serve (healthy_env invoice_event) signed_request (store_of None))
       = Response SuccessJson 200
   \<and> map_option subscription_tier
       (users (snd (serve (healthy_env invoice_event) signed_request (store_of None)))
          ''ada@example.org'') \<noteq> Some (Some ''premium'')
   \<and> map tx_type (transactions (snd (serve (healthy_env invoice_event) signed_request
        (store_of None)))) = [''subscription_payment'']"
  by (simp add: handlers store_ops examples)

text \<open>
  Claim C6, amended. For every subscription-payment-succeeded event with a non-empty
  customer email, when the provider lookups succeed, an account with that email exists
  and the store accepts the update and the insert, the handler answers 200, sets the tier
  of the account to premium if the product name contains Premium and to enterprise
  otherwise, sets the subscription reference, sets subscription-active to true, sets the
  last-payment timestamp, leaves the other columns as they were, and appends one
  transaction record of kind subscription_payment with status completed.
\<close>

theorem subscription_payment_effect:
  assumes "constructEventAsync e (body rq) (signature rq) = Inr ev"
    and "type ev = ''invoice.payment_succeeded''"
    and "customer_email (data_object ev) = Some k" and "k \<noteq> []"
    and "subscriptions_retrieve e (subscription (data_object ev)) = Some sub"
    and "products_retrieve e (case items_data sub of [] \<Rightarrow> None | p # _ \<Rightarrow> Some (product p))
           = Some prd"
    and "users s k = Some u"
    and "\<not> update_fails e" and "\<not> insert_fails e"
  shows "fst (serve e rq s) = Response SuccessJson 200
       \<and> users (snd (serve e rq s)) k =
           Some (u\<lparr>subscription_tier :=
                 Some (if \<exists>a b. name prd = a @ ''Premium'' @ b then ''premium''
                       else ''enterprise''),
               subscription_id := subscription (data_object ev),
               subscription_active := Some True,
               last_payment := Some (date_first e)\<rparr>)
       \<and> transactions (snd (serve e rq s)) =
           transactions s @
             [\<lparr>user_email = k, session_id = None,
               tx_subscription_id = subscription (data_object ev),
               amount = of_int (or_zero (amount_paid (data_object ev))) / 100,
               credits_added = None, timestamp = date_second e,
               tx_type = ''subscription_payment'', status = ''completed''\<rparr>]"
proof -
  have sv: "serve e rq s = invoice_payment_succeeded e (data_object ev) s"
    using assms(1,2) by (rule serve_invoice)
  show ?thesis
    using invoice_ok [OF assms(3,4,5,6,8), of s] assms(7,9)
    by (simp add: sv str_includes_iff)
qed

theorem subscription_payment_effect_witness:
  "fst (serve (healthy_env invoice_event) signed_request
      (store_of (Some (account 5 ''free'' 0)))) = Response SuccessJson 200
   \<and> users (snd (serve (healthy_env invoice_event) signed_request
      (store_of (Some (account 5 ''free'' 0))))) ''ada@example.org''
      = Some ((account 5 ''free'' 0)\<lparr>subscription_tier := Some ''premium'',
           subscription_id := Some ''sub_1'', subscription_active := Some True,
           last_payment := Some ''2024-05-01T10:00:00.000Z''\<rparr>)
   \<and> map (\<lambda>t. (tx_type t, status t, amount t))
       (transactions (snd (serve (healthy_env invoice_event) signed_request
         (store_of (Some (account 5 ''free'' 0))))))
      = [(''subscription_payment'', ''completed'', 25)]"
proof -
  let ?e = "healthy_env invoice_event"
  let ?s = "store_of (Some (account 5 ''free'' 0))"
  let ?sub = "\<lparr>items_data = [\<lparr>price_id = ''price_1'', product = ''prod_1''\<rparr>]\<rparr>"
  let ?prd = "\<lparr>name = ''JunctionSim Premium''\<rparr>"
  have v: "constructEventAsync ?e (body signed_request) (signature signed_request)
             = Inr invoice_event"
    by (simp add: healthy_env_def signed_request_def)
  have ty: "type invoice_event = ''invoice.payment_succeeded''"
    by (simp add: invoice_event_def)
  have em: "customer_email (data_object invoice_event) = Some ''ada@example.org''"
    by (simp add: invoice_event_def)
  have ne: "''ada@example.org'' \<noteq> []" by simp
  have sub: "subscriptions_retrieve ?e (subscription (data_object invoice_event)) = Some ?sub"
    by (simp add: healthy_env_def invoice_event_def)
  have prd: "products_retrieve ?e
               (case items_data ?sub of [] \<Rightarrow> None | p # _ \<Rightarrow> Some (product p)) = Some ?prd"
    by (simp add: healthy_env_def)
  have u: "users ?s ''ada@example.org'' = Some (account 5 ''free'' 0)"
    by (simp add: store_of_def)
  have f: "\<not> update_fails ?e" "\<not> insert_fails ?e"
    by (simp_all add: healthy_env_def)
  have c: "\<exists>a b. name ?prd = a @ ''Premium'' @ b"
  proof -
    have "name ?prd = ''JunctionSim '' @ ''Premium'' @ []" by simp
    then show ?thesis by blast
  qed
  have rest: "subscription (data_object invoice_event) = Some ''sub_1''"
    "or_zero (amount_paid (data_object invoice_event)) = 2500"
    "date_first ?e = ''2024-05-01T10:00:00.000Z''"
    "transactions ?s = []"
    by (simp_all add: invoice_event_def healthy_env_def store_of_def or_zero_def)
  from subscription_payment_effect [OF v ty em ne sub prd u f] c rest
  show ?thesis by simp
qed

subsection \<open>The credit balance\<close>





end
